theory Spec2Isabelle
  imports Complex_Main "HOL-Library.Word"
begin

section \<open>Data model\<close>

text \<open>
  The realtime audio session manager is the React component \<open>App\<close>: its \<open>useState\<close>
  cells and \<open>useRef\<close> cells form one state record, and every callback of the component
  (channel callbacks, audio callbacks, click handlers, effects) is a function from state
  to state. A callback runs to completion before the next one starts, so each is one
  atomic step.
\<close>

datatype AppStatus = IDLE | FILE_UPLOADED | CONNECTING | READY | LISTENING | SPEAKING | ERROR

datatype ScriptType = TEXT | IMAGE | RAW_TEXT

record ScriptContent =
  type :: ScriptType
  data :: "string option"
  textContent :: "string option"
  name :: string

text \<open>
  The part of a \<open>LiveServerMessage\<close> that \<open>onmessage\<close> reads:
  \<open>serverContent?.modelTurn?.parts?.[0]?.inlineData?.data\<close> (absent is \<open>None\<close>) and
  the truth value of \<open>serverContent?.interrupted\<close>.
\<close>

record LiveServerMessage =
  inlineData :: "string option"
  interrupted :: bool

text \<open>The argument of \<open>session.sendRealtimeInput\<close>.\<close>

record Media =
  mediaData :: string
  mimeType :: string

text \<open>
  Calls made on the audio output: \<open>source.start(when)\<close> and \<open>source.stop()\<close>. A source
  node created by \<open>ctx.createBufferSource()\<close> is a fresh object; it is identified by the
  number of nodes created before it.
\<close>

datatype AudioCall = Start nat real | Stop nat

text \<open>
  Calls that open the channel and the devices, made by \<open>connectToGemini\<close>, and the
  \<open>close()\<close> call on the session.
\<close>

datatype DeviceCall =
  NewAudioContext nat | LiveConnect string | GetUserMedia | CreateScriptProcessor nat | SessionClose

record app =
  status :: AppStatus
  script :: "ScriptContent option"
  isMicOn :: bool
  errorMsg :: "string option"
  sessionRef :: bool
  nextStartTimeRef :: real
  sourcesRef :: "nat list"
  micStreamRef :: bool
  scriptProcessorRef :: bool
  isMicOnRef :: bool
  created :: nat
  audioCalls :: "AudioCall list"
  sent :: "Media list"
  deviceCalls :: "DeviceCall list"

text \<open>
  \<open>sessionRef\<close>, \<open>micStreamRef\<close> and \<open>scriptProcessorRef\<close> record whether the ref holds
  an object or \<open>null\<close>. \<open>sourcesRef\<close> is the JavaScript \<open>Set\<close> in insertion order.
  \<open>created\<close>, \<open>audioCalls\<close>, \<open>sent\<close> and \<open>deviceCalls\<close> are the observable history:
  how many source nodes exist and which calls went out, oldest first.
\<close>

definition initial :: app where
  "initial = \<lparr>status = IDLE, script = None, isMicOn = False, errorMsg = None,
     sessionRef = False, nextStartTimeRef = 0, sourcesRef = [], micStreamRef = False,
     scriptProcessorRef = False, isMicOnRef = False, created = 0, audioCalls = [],
     sent = [], deviceCalls = []\<rparr>"

text \<open>What the environment answers during a connection attempt.\<close>

record env =
  connect_ok :: bool
  getUserMedia_ok :: bool

section \<open>Set operations on the pending sources\<close>

definition set_add :: "nat \<Rightarrow> nat list \<Rightarrow> nat list" where
  "set_add x xs = (if x \<in> set xs then xs else xs @ [x])"


section \<open>Channel callbacks\<close>


text \<open>The block guarded by \<open>message.serverContent?.interrupted\<close>.\<close>

definition flush :: "app \<Rightarrow> app" where
  "flush s = s\<lparr>audioCalls := audioCalls s @ map Stop (sourcesRef s),
               sourcesRef := [],
               nextStartTimeRef := 0\<rparr>"

definition on_interrupted :: "LiveServerMessage \<Rightarrow> app \<Rightarrow> app" where
  "on_interrupted message s = (if interrupted message then flush s else s)"

text \<open>
  \<open>onmessage\<close>. The helpers \<open>decode\<close> and \<open>decodeAudioData\<close> live in
  \<open>utils/audioUtils\<close>; their composition is the parameter \<open>dec\<close>, which gives the
  duration of the decoded buffer, or \<open>None\<close> when decoding throws. \<open>now\<close> is
  \<open>ctx.currentTime\<close> when the message arrives. An empty string is falsy in JavaScript, so
  an empty payload takes the same path as an absent one. When decoding throws, the
  handler ends there: the statements before the \<open>await\<close> have run, the rest of the
  handler (the interruption block included) has not. When decoding succeeds, the handler
  resumes before any other callback runs, since decoding waits for nothing outside; the
  whole handler is then one step. Clock times and durations are exact numbers: the
  rounding of the floating-point addition is not modelled.
\<close>

definition onmessage :: "(string \<Rightarrow> real option) \<Rightarrow> real \<Rightarrow> LiveServerMessage \<Rightarrow> app \<Rightarrow> app" where
  "onmessage dec now message s =
     (case inlineData message of
        None \<Rightarrow> on_interrupted message s
      | Some base64Audio \<Rightarrow>
          if base64Audio = [] then on_interrupted message s
          else
            let s1 = s\<lparr>status := SPEAKING\<rparr>;
                s2 = s1\<lparr>nextStartTimeRef := max (nextStartTimeRef s1) now\<rparr>
            in (case dec base64Audio of
                  None \<Rightarrow> s2
                | Some duration \<Rightarrow>
                    (let source = created s2;
                         s3 = s2\<lparr>created := Suc (created s2)\<rparr>;
                         s4 = s3\<lparr>audioCalls := audioCalls s3 @ [Start source (nextStartTimeRef s3)]\<rparr>;
                         s5 = s4\<lparr>nextStartTimeRef := nextStartTimeRef s4 + duration\<rparr>;
                         s6 = s5\<lparr>sourcesRef := set_add source (sourcesRef s5)\<rparr>
                     in on_interrupted message s6)))"

definition onerror :: "app \<Rightarrow> app" where
  "onerror s = s\<lparr>errorMsg := Some ''Connection error occurred. Check your API key or network.'',
                 status := ERROR\<rparr>"

definition onclose :: "app \<Rightarrow> app" where
  "onclose s = s\<lparr>status := IDLE, sessionRef := False\<rparr>"

text \<open>\<open>onopen\<close>, with the script that \<open>connectToGemini\<close> closed over.\<close>

definition onopen :: "ScriptContent \<Rightarrow> app \<Rightarrow> app" where
  "onopen sc s =
     (let s1 = s\<lparr>status := READY\<rparr>
      in (case data sc of
            None \<Rightarrow> s1
          | Some d \<Rightarrow>
              if type sc = IMAGE \<and> d \<noteq> []
              then s1\<lparr>sent := sent s1 @ [\<lparr>mediaData = d, mimeType = ''image/jpeg''\<rparr>]\<rparr>
              else s1))"

section \<open>Runs of inbound messages\<close>

text \<open>
  A message that carries the audio payload \<open>b\<close> and nothing else, and a message that
  carries the interruption signal and nothing else.
\<close>

definition audio_message :: "string \<Rightarrow> LiveServerMessage" where
  "audio_message b = \<lparr>inlineData = Some b, interrupted = False\<rparr>"

definition interrupt_message :: LiveServerMessage where
  "interrupt_message = \<lparr>inlineData = None, interrupted = True\<rparr>"

text \<open>The channel delivering messages in order, each at its own clock time.\<close>

fun deliver :: "(string \<Rightarrow> real option) \<Rightarrow> (real \<times> LiveServerMessage) list \<Rightarrow> app \<Rightarrow> app" where
  "deliver dec [] s = s"
| "deliver dec ((now, message) # rest) s = deliver dec rest (onmessage dec now message s)"

text \<open>The start times passed to \<open>source.start\<close>, oldest first.\<close>

fun start_times :: "AudioCall list \<Rightarrow> real list" where
  "start_times [] = []"
| "start_times (Start source when # calls) = when # start_times calls"
| "start_times (Stop source # calls) = start_times calls"

text \<open>
  A chunk is its arrival time, its payload and the duration the payload decodes to.
  \<open>chunk_starts\<close> gives the start times that a run of chunks adds to the history.
\<close>

definition arrival :: "real \<times> string \<times> real \<Rightarrow> real" where
  "arrival c = fst c"

definition duration :: "real \<times> string \<times> real \<Rightarrow> real" where
  "duration c = snd (snd c)"

definition chunk_messages :: "(real \<times> string \<times> real) list \<Rightarrow> (real \<times> LiveServerMessage) list" where
  "chunk_messages cs = map (\<lambda>(now, b, d). (now, audio_message b)) cs"

definition chunk_starts ::
  "(string \<Rightarrow> real option) \<Rightarrow> (real \<times> string \<times> real) list \<Rightarrow> app \<Rightarrow> real list" where
  "chunk_starts dec cs s =
     drop (length (start_times (audioCalls s)))
       (start_times (audioCalls (deliver dec (chunk_messages cs) s)))"

text \<open>The cursor arithmetic on its own: the start times of chunks enqueued from cursor \<open>t\<close>.\<close>

fun schedule :: "real \<Rightarrow> (real \<times> string \<times> real) list \<Rightarrow> real list" where
  "schedule t [] = []"
| "schedule t ((now, b, d) # cs) = max t now # schedule (max t now + d) cs"


section \<open>Connecting\<close>

definition contextSnippet :: "ScriptContent \<Rightarrow> string" where
  "contextSnippet sc =
     (case textContent sc of
        None \<Rightarrow> []
      | Some t \<Rightarrow>
          if t = [] then []
          else [CHR 0x0A] @ ''GAME RULES/SCRIPT CONTEXT:'' @ [CHR 0x0A] @ t)"

definition connect_failed :: "app \<Rightarrow> app" where
  "connect_failed s =
     s\<lparr>errorMsg := Some ''Failed to connect to AI Host. Please check microphone permissions.'',
       status := ERROR\<rparr>"

text \<open>
  \<open>connectToGemini\<close>. The function never throws: the guard returns, and the
  \<open>try\<close>/\<open>catch\<close> turns every failure into \<open>connect_failed\<close>. The only ways an error
  shows are therefore \<open>status = ERROR\<close> and \<open>errorMsg\<close>. The persona text of the system
  instruction is a constant and is left out of the \<open>LiveConnect\<close> call; its variable tail
  is kept.
\<close>

definition connectToGemini :: "env \<Rightarrow> app \<Rightarrow> app" where
  "connectToGemini e s =
     (case script s of
        None \<Rightarrow> s
      | Some sc \<Rightarrow>
          let s1 = s\<lparr>status := CONNECTING, errorMsg := None\<rparr>;
              s2 = s1\<lparr>deviceCalls := deviceCalls s1 @
                     [NewAudioContext 16000, NewAudioContext 24000,
                      LiveConnect (''[GAME INFO: '' @ name sc @ ''] '' @ contextSnippet sc)]\<rparr>
          in if \<not> connect_ok e then connect_failed s2
             else
               let s3 = onopen sc s2;
                   s4 = s3\<lparr>sessionRef := True\<rparr>;
                   s5 = s4\<lparr>deviceCalls := deviceCalls s4 @ [GetUserMedia]\<rparr>
               in if \<not> getUserMedia_ok e then connect_failed s5
                  else s5\<lparr>micStreamRef := True,
                          deviceCalls := deviceCalls s5 @ [CreateScriptProcessor 4096],
                          scriptProcessorRef := True\<rparr>)"

section \<open>Microphone toggle and effects\<close>

definition toggleMic :: "app \<Rightarrow> app" where
  "toggleMic s =
     (if status s = IDLE \<or> status s = ERROR then s
      else s\<lparr>isMicOn := \<not> isMicOn s\<rparr>)"

text \<open>
  After a handler has changed \<open>isMicOn\<close> or \<open>status\<close> the component renders again and
  runs the effects that depend on them, in the order of their declaration; no other
  callback runs between a click and the effects of its render. The effect on
  \<open>[isMicOn]\<close> copies the flag into the ref that the audio callbacks read.
\<close>

definition syncEffect :: "app \<Rightarrow> app" where
  "syncEffect s = s\<lparr>isMicOnRef := isMicOn s\<rparr>"

text \<open>The effect on \<open>[isMicOn, status, connectToGemini]\<close>.\<close>

definition micEffect :: "env \<Rightarrow> app \<Rightarrow> app" where
  "micEffect e s =
     (if isMicOn s \<and> (status s = READY \<or> status s = FILE_UPLOADED)
      then (if \<not> sessionRef s then connectToGemini e s
            else s\<lparr>status := LISTENING\<rparr>)
      else if \<not> isMicOn s \<and> status s = LISTENING then s\<lparr>status := READY\<rparr>
      else s)"

text \<open>
  The click handler of the button \<open>Reset Game Data\<close>. It has no guard on the status.
  The \<open>close()\<close> call is recorded; \<open>onclose\<close> is a callback of its own that runs later.
\<close>

definition resetGameData :: "app \<Rightarrow> app" where
  "resetGameData s =
     (let s1 = s\<lparr>script := None\<rparr>;
          s2 = s1\<lparr>status := IDLE\<rparr>;
          s3 = s2\<lparr>isMicOn := False\<rparr>
      in if sessionRef s3 then s3\<lparr>deviceCalls := deviceCalls s3 @ [SessionClose]\<rparr> else s3)"

section \<open>Capture pipeline\<close>

text \<open>
  A sample of the \<open>Float32Array\<close> handed to \<open>onaudioprocess\<close>: a finite number, given by
  its exact value, or one of the three non-finite values.
\<close>

datatype Float32 = Num real | NaN | PosInfinity | NegInfinity

text \<open>
  \<open>inputData[i] * 32768\<close>. The factor is a power of two and the product of a 32-bit
  float with it is exact in double precision.
\<close>

definition js_times :: "Float32 \<Rightarrow> real \<Rightarrow> Float32" where
  "js_times x k = (case x of Num r \<Rightarrow> Num (r * k) | NaN \<Rightarrow> NaN
                | PosInfinity \<Rightarrow> PosInfinity | NegInfinity \<Rightarrow> NegInfinity)"

text \<open>Rounding towards zero, the \<open>truncate\<close> of the language definition.\<close>

definition truncate :: "real \<Rightarrow> int" where
  "truncate x = (if x < 0 then - \<lfloor>- x\<rfloor> else \<lfloor>x\<rfloor>)"

text \<open>
  The store into an \<open>Int16Array\<close> element (\<open>ToInt16\<close>): non-finite values become 0, a
  finite value is truncated and reduced modulo \<open>2 ^ 16\<close>, which \<open>word_of_int\<close> does.
\<close>

definition ToInt16 :: "Float32 \<Rightarrow> 16 word" where
  "ToInt16 v = (case v of Num r \<Rightarrow> word_of_int (truncate r) | NaN \<Rightarrow> 0
                | PosInfinity \<Rightarrow> 0 | NegInfinity \<Rightarrow> 0)"

text \<open>The loop of \<open>onaudioprocess\<close> that fills \<open>int16\<close>.\<close>

definition floatToInt16 :: "Float32 list \<Rightarrow> 16 word list" where
  "floatToInt16 inputData = map (\<lambda>x. ToInt16 (js_times x 32768)) inputData"

text \<open>\<open>new Uint8Array(int16.buffer)\<close>: two bytes per element, low byte first.\<close>

definition int16_bytes :: "16 word \<Rightarrow> 8 word list" where
  "int16_bytes w = [ucast w, ucast (drop_bit 8 w)]"

definition Uint8Array :: "16 word list \<Rightarrow> 8 word list" where
  "Uint8Array int16 = concat (map int16_bytes int16)"

text \<open>
  The message built from one frame. The helper \<open>encode\<close> of \<open>utils/audioUtils\<close> is
  the parameter \<open>encode\<close>.
\<close>

definition audioMedia :: "(8 word list \<Rightarrow> string) \<Rightarrow> Float32 list \<Rightarrow> Media" where
  "audioMedia encode inputData =
     \<lparr>mediaData = encode (Uint8Array (floatToInt16 inputData)),
      mimeType = ''audio/pcm;rate=16000''\<rparr>"

text \<open>\<open>processor.onaudioprocess\<close>, for one frame \<open>inputData\<close>.\<close>

definition onaudioprocess :: "(8 word list \<Rightarrow> string) \<Rightarrow> Float32 list \<Rightarrow> app \<Rightarrow> app" where
  "onaudioprocess encode inputData s =
     (if isMicOnRef s then s\<lparr>sent := sent s @ [audioMedia encode inputData]\<rparr> else s)"

text \<open>The capture stream delivering a run of frames, one callback per frame.\<close>

fun capture :: "(8 word list \<Rightarrow> string) \<Rightarrow> Float32 list list \<Rightarrow> app \<Rightarrow> app" where
  "capture encode [] s = s"
| "capture encode (inputData # rest) s = capture encode rest (onaudioprocess encode inputData s)"

section \<open>Concrete inputs\<close>

text \<open>
  A decoder with two payloads that decode, to buffers of 0.5 and 0.3 seconds; every other
  payload fails to decode.
\<close>

definition sample_dec :: "string \<Rightarrow> real option" where
  "sample_dec b = (if b = ''QUJD'' then Some (1/2) else if b = ''REVG'' then Some (3/10) else None)"

text \<open>The script left by uploading an empty text file named \<open>rules.txt\<close>.\<close>

definition empty_script :: ScriptContent where
  "empty_script = \<lparr>type = TEXT, data = Some [], textContent = Some [], name = ''rules.txt''\<rparr>"

definition uploaded :: app where
  "uploaded = initial\<lparr>script := Some empty_script, status := FILE_UPLOADED\<rparr>"

text \<open>An encoder for the examples: two hexadecimal digits per byte.\<close>

definition hex_encode :: "8 word list \<Rightarrow> string" where
  "hex_encode bs =
     concat (map (\<lambda>b. [''0123456789abcdef'' ! unat (drop_bit 4 b),
                        ''0123456789abcdef'' ! unat (take_bit 4 b)]) bs)"

definition all_ok :: env where
  "all_ok = \<lparr>connect_ok = True, getUserMedia_ok = True\<rparr>"

definition connect_refused :: env where
  "connect_refused = \<lparr>connect_ok = False, getUserMedia_ok = True\<rparr>"

text \<open>
  The state after an upload, the microphone toggled on, and the connection attempt of
  the effect refused.
\<close>

definition refused :: app where
  "refused = micEffect connect_refused (syncEffect (toggleMic uploaded))"

text \<open>The state after a successful connection with the microphone still off.\<close>

definition connected :: app where
  "connected = connectToGemini all_ok uploaded"


text \<open>After that, a first chunk at time 0, and then a second one at time 0.1.\<close>

definition one_pending :: app where
  "one_pending = onmessage sample_dec 0 (audio_message ''QUJD'') connected"


section \<open>What the callbacks leave alone\<close>

lemma onopen_fields:
  "status (onopen sc s) = READY"
  "deviceCalls (onopen sc s) = deviceCalls s"
  "errorMsg (onopen sc s) = errorMsg s"
  "isMicOn (onopen sc s) = isMicOn s"
  "isMicOnRef (onopen sc s) = isMicOnRef s"
  "sessionRef (onopen sc s) = sessionRef s"
  by (simp_all add: onopen_def Let_def split: option.splits)

lemma connectToGemini_deviceCalls:
  "script s = Some sc \<Longrightarrow>
   \<exists>rest. deviceCalls (connectToGemini e s) =
     deviceCalls s @ [NewAudioContext 16000, NewAudioContext 24000,
       LiveConnect (''[GAME INFO: '' @ name sc @ ''] '' @ contextSnippet sc)] @ rest"
  by (simp add: connectToGemini_def connect_failed_def onopen_fields Let_def)

lemma toggle_on_fields:
  assumes "\<not> isMicOn s" and "status s = READY \<or> status s = FILE_UPLOADED"
  shows "isMicOn (syncEffect (toggleMic s))"
    and "status (syncEffect (toggleMic s)) = status s"
    and "sessionRef (syncEffect (toggleMic s)) = sessionRef s"
    and "script (syncEffect (toggleMic s)) = script s"
    and "deviceCalls (syncEffect (toggleMic s)) = deviceCalls s"
    and "isMicOn (toggleMic s)"
  using assms by (auto simp: toggleMic_def syncEffect_def)

lemma capture_disabled: "\<not> isMicOnRef s \<Longrightarrow> capture encode fs s = s"
  by (induction fs) (simp_all add: onaudioprocess_def)

lemma capture_enabled:
  "isMicOnRef s \<Longrightarrow> sent (capture encode fs s) = sent s @ map (audioMedia encode) fs"
  by (induction fs arbitrary: s) (simp_all add: onaudioprocess_def)

lemma toggle_on_capture:
  assumes "\<not> isMicOn s" and "status s \<noteq> IDLE" and "status s \<noteq> ERROR" and "sessionRef s"
  shows "isMicOnRef (micEffect e (syncEffect (toggleMic s)))"
    and "sent (micEffect e (syncEffect (toggleMic s))) = sent s"
  using assms by (auto simp: toggleMic_def syncEffect_def micEffect_def)

lemma refused_value:
  "refused = \<lparr>status = ERROR, script = Some empty_script, isMicOn = True,
     errorMsg = Some ''Failed to connect to AI Host. Please check microphone permissions.'',
     sessionRef = False, nextStartTimeRef = 0, sourcesRef = [], micStreamRef = False,
     scriptProcessorRef = False, isMicOnRef = True, created = 0, audioCalls = [],
     sent = [], deviceCalls = [NewAudioContext 16000, NewAudioContext 24000,
       LiveConnect ''[GAME INFO: rules.txt] '']\<rparr>"
  by (simp add: refused_def connect_refused_def uploaded_def initial_def empty_script_def
      toggleMic_def syncEffect_def micEffect_def connectToGemini_def connect_failed_def
      contextSnippet_def)

lemma syncEffect_in_step: "isMicOnRef s = isMicOn s \<Longrightarrow> syncEffect s = s"
  by (simp add: syncEffect_def)

section \<open>Facts about the playback scheduler\<close>

lemma connected_value: "connected = \<lparr>status = READY, script = Some empty_script, isMicOn = False, errorMsg = None,
     sessionRef = True, nextStartTimeRef = 0, sourcesRef = [], micStreamRef = True,
     scriptProcessorRef = True, isMicOnRef = False, created = 0, audioCalls = [],
     sent = [], deviceCalls = [NewAudioContext 16000, NewAudioContext 24000, LiveConnect ''[GAME INFO: rules.txt] '',
          GetUserMedia, CreateScriptProcessor 4096]\<rparr>"
  by (simp add: connected_def uploaded_def initial_def all_ok_def empty_script_def
      connectToGemini_def onopen_def contextSnippet_def)

lemma one_pending_value: "one_pending = connected\<lparr>status := SPEAKING, nextStartTimeRef := 1/2, created := 1,
     audioCalls := [Start 0 0], sourcesRef := [0]\<rparr>"
  by (simp add: one_pending_def connected_value onmessage_def audio_message_def
      sample_dec_def on_interrupted_def set_add_def Let_def)


lemma start_times_append: "start_times (xs @ ys) = start_times xs @ start_times ys"
  by (induction xs rule: start_times.induct) simp_all

lemma enqueue_fields:
  assumes "b \<noteq> []" and "dec b = Some d"
  shows "audioCalls (onmessage dec now (audio_message b) s)
           = audioCalls s @ [Start (created s) (max (nextStartTimeRef s) now)]"
    and "nextStartTimeRef (onmessage dec now (audio_message b) s) = max (nextStartTimeRef s) now + d"
    and "sourcesRef (onmessage dec now (audio_message b) s) = set_add (created s) (sourcesRef s)"
    and "status (onmessage dec now (audio_message b) s) = SPEAKING"
    and "created (onmessage dec now (audio_message b) s) = Suc (created s)"
  using assms by (simp_all add: onmessage_def audio_message_def on_interrupted_def Let_def)

lemma deliver_starts:
  "\<forall>(now, b, d) \<in> set cs. b \<noteq> [] \<and> dec b = Some d \<Longrightarrow>
   start_times (audioCalls (deliver dec (chunk_messages cs) s))
     = start_times (audioCalls s) @ schedule (nextStartTimeRef s) cs"
proof (induction cs arbitrary: s)
  case Nil
  then show ?case by (simp add: chunk_messages_def)
next
  case (Cons c cs)
  obtain now b d where c: "c = (now, b, d)" by (cases c)
  with Cons.prems have ok: "b \<noteq> []" "dec b = Some d" by auto
  from Cons.prems have rest: "\<forall>(now, b, d) \<in> set cs. b \<noteq> [] \<and> dec b = Some d" by simp
  have "deliver dec (chunk_messages (c # cs)) s
      = deliver dec (chunk_messages cs) (onmessage dec now (audio_message b) s)"
    by (simp add: chunk_messages_def c)
  then show ?case using ok
    by (simp add: Cons.IH [OF rest] enqueue_fields start_times_append c)
qed

lemma chunk_starts_schedule:
  "\<forall>(now, b, d) \<in> set cs. b \<noteq> [] \<and> dec b = Some d \<Longrightarrow>
   chunk_starts dec cs s = schedule (nextStartTimeRef s) cs"
  by (simp add: chunk_starts_def deliver_starts)

lemma schedule_length: "length (schedule t cs) = length cs"
  by (induction t cs rule: schedule.induct) simp_all

lemma schedule_first: "cs \<noteq> [] \<Longrightarrow> schedule t cs ! 0 = max t (arrival (cs ! 0))"
  by (cases cs) (auto simp: arrival_def)

lemma schedule_next:
  "Suc k < length cs \<Longrightarrow>
   schedule t cs ! Suc k = max (schedule t cs ! k + duration (cs ! k)) (arrival (cs ! Suc k))"
proof (induction t cs arbitrary: k rule: schedule.induct)
  case (1 t)
  then show ?case by simp
next
  case (2 t now b d cs)
  show ?case
  proof (cases k)
    case 0
    with "2.prems" obtain c cs' where "cs = c # cs'" by (cases cs) auto
    then show ?thesis using 0 by (cases c) (simp add: arrival_def duration_def)
  next
    case (Suc j)
    with "2.prems" have "Suc j < length cs" by simp
    from "2.IH" [OF this] show ?thesis using Suc by simp
  qed
qed

lemma enqueue_value:
  assumes "b \<noteq> []" and "dec b = Some d"
  shows "onmessage dec now (audio_message b) s
    = s\<lparr>status := SPEAKING, nextStartTimeRef := max (nextStartTimeRef s) now + d,
        created := Suc (created s),
        audioCalls := audioCalls s @ [Start (created s) (max (nextStartTimeRef s) now)],
        sourcesRef := set_add (created s) (sourcesRef s)\<rparr>"
  using assms by (simp add: onmessage_def audio_message_def on_interrupted_def Let_def)





section \<open>Arithmetic of the 16-bit store\<close>

lemma truncate_bounds:
  "- 32768 \<le> y \<Longrightarrow> y < 32768 \<Longrightarrow> - 32768 \<le> truncate y \<and> truncate y < 32768"
  unfolding truncate_def by (auto; linarith)

lemma sint16_word_of_int: "sint (word_of_int k :: 16 word) = (k + 32768) mod 65536 - 32768"
  by (simp add: int_word_sint)

lemma low_byte: "uint (ucast (w :: 16 word) :: 8 word) = uint w mod 256"
  by (simp add: unsigned_ucast_eq take_bit_eq_mod)

lemma high_byte: "uint (ucast (drop_bit 8 (w :: 16 word)) :: 8 word) = uint w div 256"
proof -
  have "uint w < 65536" using uint_lt2p [of w] by simp
  moreover have nn: "0 \<le> uint w" by simp
  ultimately have small: "uint w div 256 < 256" by linarith
  from nn have nn': "0 \<le> uint w div 256" by linarith
  have "uint (drop_bit 8 w) = uint w div 256"
    by (simp add: drop_bit_eq_div uint_div_distrib)
  then show ?thesis using small nn'
    by (simp only: unsigned_ucast_eq take_bit_eq_mod) simp
qed

section \<open>Microphone toggle in Idle and Error\<close>

text \<open>
  C10, as the code has it. A microphone toggle issued while the status is \<open>IDLE\<close> or
  \<open>ERROR\<close> returns the state as it was: the flag is not flipped, and the status, the
  pending sources and the next start time are untouched; with the ref in step with the
  flag, the effects that would follow change nothing either. In every other status the
  toggle flips the flag and changes nothing else. The toggle is not the only writer of
  the flag: the reset handler clears it in every status, \<open>ERROR\<close> included, sets the
  status to \<open>IDLE\<close> and drops the script, leaving the pending sources and the next
  start time alone.
\<close>

theorem toggleMic_idle_error:
  "(status s = IDLE \<or> status s = ERROR \<longrightarrow>
      toggleMic s = s
      \<and> (isMicOnRef s = isMicOn s \<longrightarrow> micEffect e (syncEffect (toggleMic s)) = s))
   \<and> (status s \<noteq> IDLE \<and> status s \<noteq> ERROR \<longrightarrow> toggleMic s = s\<lparr>isMicOn := \<not> isMicOn s\<rparr>)
   \<and> isMicOn (resetGameData s) = False
   \<and> status (resetGameData s) = IDLE
   \<and> script (resetGameData s) = None
   \<and> sourcesRef (resetGameData s) = sourcesRef s
   \<and> nextStartTimeRef (resetGameData s) = nextStartTimeRef s"
proof (intro conjI impI)
  assume g: "status s = IDLE \<or> status s = ERROR"
  then show t: "toggleMic s = s" by (auto simp: toggleMic_def)
  assume "isMicOnRef s = isMicOn s"
  then have "syncEffect (toggleMic s) = s" by (simp add: t syncEffect_in_step)
  with g show "micEffect e (syncEffect (toggleMic s)) = s"
    by (auto simp: micEffect_def)
next
  assume "status s \<noteq> IDLE \<and> status s \<noteq> ERROR"
  then show "toggleMic s = s\<lparr>isMicOn := \<not> isMicOn s\<rparr>" by (simp add: toggleMic_def)
qed (simp_all add: resetGameData_def Let_def)

theorem toggleMic_idle_error_witness:
  "status initial = IDLE \<and> isMicOnRef initial = isMicOn initial
   \<and> toggleMic initial = initial
   \<and> micEffect all_ok (syncEffect (toggleMic initial)) = initial
   \<and> status refused = ERROR \<and> isMicOnRef refused = isMicOn refused
   \<and> toggleMic refused = refused
   \<and> micEffect all_ok (syncEffect (toggleMic refused)) = refused
   \<and> status connected = READY \<and> \<not> isMicOn connected \<and> isMicOn (toggleMic connected)
   \<and> isMicOn refused \<and> \<not> isMicOn (resetGameData refused)
   \<and> status (resetGameData refused) = IDLE"
proof -
  have i: "status initial = IDLE" "isMicOnRef initial = isMicOn initial"
    by (simp_all add: initial_def)
  have r: "status refused = ERROR" "isMicOnRef refused = isMicOn refused" "isMicOn refused"
    by (simp_all add: refused_value)
  have c: "status connected = READY" "\<not> isMicOn connected"
    by (simp_all add: connected_value)
  from toggleMic_idle_error [of initial all_ok] i
  have "toggleMic initial = initial" "micEffect all_ok (syncEffect (toggleMic initial)) = initial"
    by blast+
  moreover from toggleMic_idle_error [of refused all_ok] r
  have "toggleMic refused = refused" "micEffect all_ok (syncEffect (toggleMic refused)) = refused"
    "\<not> isMicOn (resetGameData refused)" "status (resetGameData refused) = IDLE"
    by blast+
  moreover from toggleMic_idle_error [of connected all_ok] c
  have "toggleMic connected = connected\<lparr>isMicOn := \<not> isMicOn connected\<rparr>"
    by simp
  then have "isMicOn (toggleMic connected)" using c by simp
  ultimately show ?thesis using i r c by simp
qed

text \<open>
  The flag changed while the status is \<open>ERROR\<close>: after a refused connection the status
  is \<open>ERROR\<close> with the flag still set, the toggle leaves the flag alone, and the reset
  handler clears it.
\<close>

theorem mic_flag_changed_in_error_counterexample:
  "status refused = ERROR \<and> isMicOn refused
   \<and> isMicOn (toggleMic refused)
   \<and> isMicOn (resetGameData refused) \<noteq> isMicOn refused"
  by (simp add: refused_value toggleMic_def resetGameData_def)

section \<open>Microphone toggle in Ready, with a context, and in Listening\<close>

text \<open>
  C9. After a toggle the component renders again and runs its two effects. Toggling the
  microphone on while the status is \<open>READY\<close> or \<open>FILE_UPLOADED\<close> sets the flag and
  then, if no session is held, runs \<open>connectToGemini\<close> (which, given a script, issues
  the \<open>LiveConnect\<close> call), and otherwise sets the status to \<open>LISTENING\<close>. Toggling the
  microphone off while the status is \<open>LISTENING\<close> clears the flag and sets the status
  to \<open>READY\<close>.
\<close>

theorem toggleMic_ready_listening:
  "(\<not> isMicOn s \<and> (status s = READY \<or> status s = FILE_UPLOADED) \<longrightarrow>
      isMicOn (toggleMic s)
      \<and> (\<not> sessionRef s \<longrightarrow>
           micEffect e (syncEffect (toggleMic s)) = connectToGemini e (syncEffect (toggleMic s))
           \<and> (script s \<noteq> None \<longrightarrow>
                length (deviceCalls s) < length (deviceCalls (micEffect e (syncEffect (toggleMic s))))))
      \<and> (sessionRef s \<longrightarrow>
           status (micEffect e (syncEffect (toggleMic s))) = LISTENING
           \<and> deviceCalls (micEffect e (syncEffect (toggleMic s))) = deviceCalls s))
   \<and> (isMicOn s \<and> status s = LISTENING \<longrightarrow>
        \<not> isMicOn (toggleMic s) \<and> status (micEffect e (syncEffect (toggleMic s))) = READY)"
proof (intro conjI impI)
  assume on: "\<not> isMicOn s \<and> (status s = READY \<or> status s = FILE_UPLOADED)"
  let ?t = "syncEffect (toggleMic s)"
  note f = toggle_on_fields [of s]
  from on show "isMicOn (toggleMic s)" by (simp add: f)
  {
    assume ns: "\<not> sessionRef s"
    from on ns show c: "micEffect e ?t = connectToGemini e ?t"
      by (auto simp: micEffect_def f)
    assume "script s \<noteq> None"
    then obtain sc where sc: "script ?t = Some sc" using on by (auto simp: f)
    from connectToGemini_deviceCalls [OF sc, of e] on
    show "length (deviceCalls s) < length (deviceCalls (micEffect e ?t))"
      by (auto simp: c f)
  }
  {
    assume ss: "sessionRef s"
    from on ss show "status (micEffect e ?t) = LISTENING"
      by (auto simp: micEffect_def f)
    from on ss show "deviceCalls (micEffect e ?t) = deviceCalls s"
      by (auto simp: micEffect_def f)
  }
next
  assume "isMicOn s \<and> status s = LISTENING"
  then show "\<not> isMicOn (toggleMic s)"
    by (simp add: toggleMic_def)
next
  assume "isMicOn s \<and> status s = LISTENING"
  then show "status (micEffect e (syncEffect (toggleMic s))) = READY"
    by (simp add: toggleMic_def syncEffect_def micEffect_def)
qed

theorem toggleMic_ready_listening_witness:
  "status uploaded = FILE_UPLOADED \<and> \<not> isMicOn uploaded \<and> \<not> sessionRef uploaded
   \<and> script uploaded \<noteq> None
   \<and> micEffect all_ok (syncEffect (toggleMic uploaded))
       = connectToGemini all_ok (syncEffect (toggleMic uploaded))
   \<and> length (deviceCalls uploaded)
       < length (deviceCalls (micEffect all_ok (syncEffect (toggleMic uploaded))))
   \<and> status connected = READY \<and> \<not> isMicOn connected \<and> sessionRef connected
   \<and> status (micEffect all_ok (syncEffect (toggleMic connected))) = LISTENING
   \<and> isMicOn (micEffect all_ok (syncEffect (toggleMic connected)))
   \<and> status (micEffect all_ok (syncEffect (toggleMic
         (micEffect all_ok (syncEffect (toggleMic connected)))))) = READY"
  using toggleMic_ready_listening [of uploaded all_ok]
    toggleMic_ready_listening [of connected all_ok]
    toggleMic_ready_listening [of "micEffect all_ok (syncEffect (toggleMic connected))" all_ok]
  by (simp add: connected_def uploaded_def initial_def all_ok_def empty_script_def
      connectToGemini_def onopen_def toggleMic_def syncEffect_def micEffect_def)

section \<open>Connecting without a context\<close>

text \<open>
  C7, as the code has it. \<open>connectToGemini\<close> called without a script returns at its
  guard: the state is returned as it was, so no call to the channel or a device is made,
  the status does not become \<open>CONNECTING\<close>, and no error is recorded. A script that is
  present passes the guard whatever it holds, and the \<open>LiveConnect\<close> call is issued.
\<close>

theorem connectToGemini_without_script:
  "(script s = None \<longrightarrow> connectToGemini e s = s)
   \<and> (script s = Some sc \<longrightarrow>
        LiveConnect (''[GAME INFO: '' @ name sc @ ''] '' @ contextSnippet sc)
          \<in> set (deviceCalls (connectToGemini e s)))"
proof (intro conjI impI)
  assume "script s = None"
  then show "connectToGemini e s = s" by (simp add: connectToGemini_def)
next
  assume "script s = Some sc"
  from connectToGemini_deviceCalls [OF this, of e]
  show "LiveConnect (''[GAME INFO: '' @ name sc @ ''] '' @ contextSnippet sc)
          \<in> set (deviceCalls (connectToGemini e s))"
    by auto
qed

theorem connectToGemini_without_script_witness:
  "script initial = None \<and> connectToGemini all_ok initial = initial
   \<and> script uploaded = Some empty_script
   \<and> LiveConnect ''[GAME INFO: rules.txt] '' \<in> set (deviceCalls (connectToGemini all_ok uploaded))"
  using connectToGemini_without_script [of initial all_ok empty_script]
    connectToGemini_without_script [of uploaded all_ok empty_script]
  by (simp add: initial_def uploaded_def empty_script_def contextSnippet_def)

text \<open>
  The claim as the specification words it asks for a failure with \<open>InvalidContext\<close>. A
  call without a script records no error, and a call with the empty script of an empty
  upload is not rejected: it connects.
\<close>

theorem connectToGemini_InvalidContext_counterexample:
  "script initial = None
   \<and> status (connectToGemini all_ok initial) \<noteq> ERROR
   \<and> errorMsg (connectToGemini all_ok initial) = None
   \<and> textContent empty_script = Some [] \<and> data empty_script = Some []
   \<and> status (connectToGemini all_ok uploaded) = READY
   \<and> errorMsg (connectToGemini all_ok uploaded) = None
   \<and> deviceCalls (connectToGemini all_ok uploaded)
       = [NewAudioContext 16000, NewAudioContext 24000, LiveConnect ''[GAME INFO: rules.txt] '',
          GetUserMedia, CreateScriptProcessor 4096]"
  by (simp add: initial_def uploaded_def empty_script_def all_ok_def connectToGemini_def
      onopen_def contextSnippet_def)

section \<open>Inbound audio in the Error status\<close>

text \<open>
  C3, as the code has it. A message that carries a non-empty audio payload sets the
  status to \<open>SPEAKING\<close> from every status, \<open>ERROR\<close> included: the handler has no guard
  on the status. A message without an audio payload leaves the status as it was.
\<close>

theorem onmessage_status:
  "(inlineData m = Some b \<and> b \<noteq> [] \<longrightarrow> status (onmessage dec now m s) = SPEAKING)
   \<and> (inlineData m = None \<or> inlineData m = Some [] \<longrightarrow> status (onmessage dec now m s) = status s)"
  by (auto simp: onmessage_def on_interrupted_def flush_def Let_def split: option.splits)

theorem onmessage_status_witness:
  "status (onerror connected) = ERROR
   \<and> status (onmessage sample_dec 0 (audio_message ''QUJD'') (onerror connected)) = SPEAKING
   \<and> status (onmessage sample_dec 0 interrupt_message (onerror connected)) = ERROR"
  using onmessage_status [of "audio_message ''QUJD''" "''QUJD''" sample_dec 0 "onerror connected"]
    onmessage_status [of interrupt_message "''QUJD''" sample_dec 0 "onerror connected"]
  by (simp add: audio_message_def interrupt_message_def onerror_def)

theorem onmessage_Error_sticky_counterexample:
  "status (onerror connected) = ERROR
   \<and> status (onmessage sample_dec 0 (audio_message ''QUJD'') (onerror connected)) \<noteq> ERROR"
  by (simp add: onmessage_def on_interrupted_def audio_message_def sample_dec_def onerror_def
      Let_def)

section \<open>Float to 16-bit PCM\<close>

text \<open>
  C6. For every finite sample \<open>x\<close> the stored element, read as a signed 16-bit integer,
  is \<open>x\<close> scaled by 32768, truncated towards zero and wrapped modulo \<open>2 ^ 16\<close> into the
  signed range; nothing is clamped. For \<open>x\<close> from -1 up to but excluding 1 the wrap
  changes nothing and the element is the truncated product itself. The element is laid
  out in two bytes, low byte first, and a frame is converted sample by sample.
\<close>

theorem floatToPCM16:
  "sint (ToInt16 (js_times (Num x) 32768)) = (truncate (x * 32768) + 32768) mod 65536 - 32768
   \<and> (- 1 \<le> x \<and> x < 1 \<longrightarrow> sint (ToInt16 (js_times (Num x) 32768)) = truncate (x * 32768))
   \<and> length (int16_bytes w) = 2
   \<and> uint (int16_bytes w ! 0) + 256 * uint (int16_bytes w ! 1) = uint w
   \<and> Uint8Array (floatToInt16 xs) = concat (map (\<lambda>x. int16_bytes (ToInt16 (js_times x 32768))) xs)"
proof (intro conjI impI)
  show wrap: "sint (ToInt16 (js_times (Num x) 32768))
      = (truncate (x * 32768) + 32768) mod 65536 - 32768"
    by (simp add: ToInt16_def js_times_def sint16_word_of_int)
  show "length (int16_bytes w) = 2"
    by (simp add: int16_bytes_def)
  show "uint (int16_bytes w ! 0) + 256 * uint (int16_bytes w ! 1) = uint w"
    unfolding int16_bytes_def by (simp only: nth_Cons_0 nth_Cons_Suc One_nat_def high_byte)
      (simp only: low_byte, simp)
  show "Uint8Array (floatToInt16 xs) = concat (map (\<lambda>x. int16_bytes (ToInt16 (js_times x 32768))) xs)"
    by (simp add: Uint8Array_def floatToInt16_def comp_def)
  assume "- 1 \<le> x \<and> x < 1"
  then have "- 32768 \<le> x * 32768" and "x * 32768 < 32768" by auto
  from truncate_bounds [OF this] show "sint (ToInt16 (js_times (Num x) 32768)) = truncate (x * 32768)"
    by (simp add: wrap)
qed

theorem floatToPCM16_witness:
  "sint (ToInt16 (js_times (Num (- 3 / 10)) 32768)) = - 9830
   \<and> truncate (- 3 / 10 * 32768) = - 9830
   \<and> sint (ToInt16 (js_times (Num 1) 32768)) = - 32768
   \<and> sint (ToInt16 (js_times (Num (3 / 2)) 32768)) = - 16384
   \<and> Uint8Array (floatToInt16 [Num (- 3 / 10), Num 1, NaN]) = [0x9A, 0xD9, 0, 0x80, 0, 0]"
  using floatToPCM16 [of "- 3 / 10" 0 "[Num (- 3 / 10), Num 1, NaN]"]
    floatToPCM16 [of 1 0 "[]"] floatToPCM16 [of "3 / 2" 0 "[]"]
  by (simp add: truncate_def ToInt16_def js_times_def int16_bytes_def)

section \<open>Capture frames and the microphone flag\<close>

text \<open>
  C5. A frame that arrives while the flag read by the capture callback is false changes
  nothing, so nothing is sent and nothing is queued. A frame that arrives while the
  flag is true adds exactly one outbound message, the converted frame. When frames
  arrive with the microphone off, the microphone is then toggled on (in a status where
  the toggle acts, with the session held) and more frames arrive, the messages sent are
  exactly the converted frames that arrived after the toggle, in order.
\<close>

theorem onaudioprocess_gate:
  "(\<not> isMicOnRef s \<longrightarrow> onaudioprocess encode f s = s)
   \<and> (isMicOnRef s \<longrightarrow> sent (onaudioprocess encode f s) = sent s @ [audioMedia encode f])
   \<and> (\<not> isMicOn s \<and> \<not> isMicOnRef s \<and> status s \<noteq> IDLE \<and> status s \<noteq> ERROR \<and> sessionRef s \<longrightarrow>
        sent (capture encode after (micEffect e (syncEffect (toggleMic (capture encode before s)))))
          = sent s @ map (audioMedia encode) after)"
proof (intro conjI impI)
  assume "\<not> isMicOnRef s"
  then show "onaudioprocess encode f s = s" by (simp add: onaudioprocess_def)
next
  assume "isMicOnRef s"
  then show "sent (onaudioprocess encode f s) = sent s @ [audioMedia encode f]"
    by (simp add: onaudioprocess_def)
next
  assume a: "\<not> isMicOn s \<and> \<not> isMicOnRef s \<and> status s \<noteq> IDLE \<and> status s \<noteq> ERROR \<and> sessionRef s"
  then have b: "capture encode before s = s" by (simp add: capture_disabled)
  from a have "isMicOnRef (micEffect e (syncEffect (toggleMic s)))"
    and "sent (micEffect e (syncEffect (toggleMic s))) = sent s"
    by (simp_all add: toggle_on_capture)
  then show "sent (capture encode after (micEffect e (syncEffect (toggleMic (capture encode before s)))))
          = sent s @ map (audioMedia encode) after"
    by (simp add: b capture_enabled)
qed

theorem onaudioprocess_gate_witness:
  "\<not> isMicOn connected \<and> \<not> isMicOnRef connected \<and> status connected = READY
   \<and> sessionRef connected \<and> sent connected = []
   \<and> onaudioprocess hex_encode [Num (- 3 / 10)] connected = connected
   \<and> isMicOnRef (micEffect all_ok (syncEffect (toggleMic connected)))
   \<and> sent (onaudioprocess hex_encode [Num 1] (micEffect all_ok (syncEffect (toggleMic connected))))
       = [\<lparr>mediaData = ''0080'', mimeType = ''audio/pcm;rate=16000''\<rparr>]
   \<and> sent (capture hex_encode [[Num 1], [Num (1 / 2)]]
         (micEffect all_ok (syncEffect (toggleMic (capture hex_encode [[Num (- 3 / 10)]] connected)))))
       = [\<lparr>mediaData = ''0080'', mimeType = ''audio/pcm;rate=16000''\<rparr>,
          \<lparr>mediaData = ''0040'', mimeType = ''audio/pcm;rate=16000''\<rparr>]"
  using onaudioprocess_gate [of connected hex_encode "[Num (- 3 / 10)]" "[[Num 1], [Num (1 / 2)]]"
      all_ok "[[Num (- 3 / 10)]]"]
    onaudioprocess_gate [of "micEffect all_ok (syncEffect (toggleMic connected))" hex_encode
      "[Num 1]" "[]" all_ok "[]"]
  by (simp add: connected_def uploaded_def initial_def all_ok_def empty_script_def
      connectToGemini_def onopen_def toggleMic_def syncEffect_def micEffect_def
      onaudioprocess_def audioMedia_def Uint8Array_def floatToInt16_def ToInt16_def
      js_times_def truncate_def int16_bytes_def hex_encode_def)

section \<open>Gap-free scheduling\<close>

text \<open>
  C1, as the code has it. An enqueue at clock time \<open>now\<close> starts its chunk at the
  maximum of the cursor and \<open>now\<close>, and leaves the cursor at that start time plus the
  chunk's duration. Over any run of chunks that decode, with no interruption between
  them, chunk \<open>k + 1\<close> therefore starts at the maximum of the end of chunk \<open>k\<close> (its
  start plus its duration) and the arrival time of chunk \<open>k + 1\<close>: never before the end
  of chunk \<open>k\<close>, and exactly at it whenever chunk \<open>k + 1\<close> arrives no later than that end.
\<close>

theorem enqueue_schedule:
  "(b \<noteq> [] \<and> dec b = Some d \<longrightarrow>
      audioCalls (onmessage dec now (audio_message b) s)
        = audioCalls s @ [Start (created s) (max (nextStartTimeRef s) now)]
      \<and> nextStartTimeRef (onmessage dec now (audio_message b) s) = max (nextStartTimeRef s) now + d)
   \<and> ((\<forall>(now, b, d) \<in> set cs. b \<noteq> [] \<and> dec b = Some d) \<longrightarrow>
        length (chunk_starts dec cs s) = length cs
        \<and> (cs \<noteq> [] \<longrightarrow> chunk_starts dec cs s ! 0 = max (nextStartTimeRef s) (arrival (cs ! 0)))
        \<and> (\<forall>k. Suc k < length cs \<longrightarrow>
              chunk_starts dec cs s ! Suc k
                = max (chunk_starts dec cs s ! k + duration (cs ! k)) (arrival (cs ! Suc k))
              \<and> chunk_starts dec cs s ! k + duration (cs ! k) \<le> chunk_starts dec cs s ! Suc k
              \<and> (arrival (cs ! Suc k) \<le> chunk_starts dec cs s ! k + duration (cs ! k) \<longrightarrow>
                   chunk_starts dec cs s ! Suc k = chunk_starts dec cs s ! k + duration (cs ! k))))"
proof (intro conjI impI allI)
  assume "b \<noteq> [] \<and> dec b = Some d"
  then have ok: "b \<noteq> []" "dec b = Some d" by simp_all
  show "audioCalls (onmessage dec now (audio_message b) s)
        = audioCalls s @ [Start (created s) (max (nextStartTimeRef s) now)]"
    using ok by (simp add: enqueue_fields)
  show "nextStartTimeRef (onmessage dec now (audio_message b) s) = max (nextStartTimeRef s) now + d"
    using ok by (simp add: enqueue_fields)
next
  assume a: "\<forall>(now, b, d) \<in> set cs. b \<noteq> [] \<and> dec b = Some d"
  note e = chunk_starts_schedule [OF a, of s]
  show "length (chunk_starts dec cs s) = length cs" by (simp add: e schedule_length)
  { assume "cs \<noteq> []"
    then show "chunk_starts dec cs s ! 0 = max (nextStartTimeRef s) (arrival (cs ! 0))"
      by (simp add: e schedule_first) }
  fix k
  assume k: "Suc k < length cs"
  show n: "chunk_starts dec cs s ! Suc k
                = max (chunk_starts dec cs s ! k + duration (cs ! k)) (arrival (cs ! Suc k))"
    by (simp add: e schedule_next [OF k])
  show "chunk_starts dec cs s ! k + duration (cs ! k) \<le> chunk_starts dec cs s ! Suc k"
    by (simp add: n)
  assume "arrival (cs ! Suc k) \<le> chunk_starts dec cs s ! k + duration (cs ! k)"
  then show "chunk_starts dec cs s ! Suc k = chunk_starts dec cs s ! k + duration (cs ! k)"
    by (simp add: n)
qed

theorem enqueue_schedule_witness:
  "chunk_starts sample_dec [(0, ''QUJD'', 1/2), (1/10, ''REVG'', 3/10)] connected = [0, 1/2]
   \<and> nextStartTimeRef (onmessage sample_dec (1/10) (audio_message ''REVG'')
         (onmessage sample_dec 0 (audio_message ''QUJD'') connected)) = 8/10
   \<and> audioCalls (onmessage sample_dec (1/10) (audio_message ''REVG'')
         (onmessage sample_dec 0 (audio_message ''QUJD'') connected)) = [Start 0 0, Start 1 (1/2)]"
proof -
  let ?cs = "[(0, ''QUJD'', 1/2), (1/10, ''REVG'', 3/10)] :: (real \<times> string \<times> real) list"
  let ?s1 = "onmessage sample_dec 0 (audio_message ''QUJD'') connected"
  have d: "sample_dec ''QUJD'' = Some (1/2)" "sample_dec ''REVG'' = Some (3/10)"
    by (simp_all add: sample_dec_def)
  have hyp: "\<forall>(now, b, d) \<in> set ?cs. b \<noteq> [] \<and> sample_dec b = Some d"
    by (simp add: d)
  have c0: "nextStartTimeRef connected = 0" "audioCalls connected = []" "created connected = 0"
    by (simp_all add: connected_value)
  from enqueue_schedule [of "''QUJD''" sample_dec "1/2" 0 connected ?cs] d hyp
  have first: "audioCalls ?s1 = [Start 0 0]" "nextStartTimeRef ?s1 = 1/2"
    and len: "length (chunk_starts sample_dec ?cs connected) = 2"
    and st0: "chunk_starts sample_dec ?cs connected ! 0 = 0"
    and nxt: "\<forall>k. Suc k < length ?cs \<longrightarrow>
        (arrival (?cs ! Suc k) \<le> chunk_starts sample_dec ?cs connected ! k + duration (?cs ! k) \<longrightarrow>
           chunk_starts sample_dec ?cs connected ! Suc k
             = chunk_starts sample_dec ?cs connected ! k + duration (?cs ! k))"
    by (simp_all add: c0 arrival_def)
  from nxt [rule_format, of 0] st0
  have st1: "chunk_starts sample_dec ?cs connected ! Suc 0 = 1/2"
    by (simp add: arrival_def duration_def)
  have s1c: "created ?s1 = 1"
    using enqueue_fields(5) [of "''QUJD''" sample_dec "1/2" 0 connected] d by (simp add: c0)
  from enqueue_schedule [of "''REVG''" sample_dec "3/10" "1/10" ?s1 "[]"] d first s1c
  have second: "audioCalls (onmessage sample_dec (1/10) (audio_message ''REVG'') ?s1) = [Start 0 0, Start 1 (1/2)]"
    "nextStartTimeRef (onmessage sample_dec (1/10) (audio_message ''REVG'') ?s1) = 8/10"
    by simp_all
  have "chunk_starts sample_dec ?cs connected = [0, 1/2]"
  proof (rule nth_equalityI)
    show "length (chunk_starts sample_dec ?cs connected) = length [0, 1/2 :: real]"
      using len by simp
    fix i assume "i < length (chunk_starts sample_dec ?cs connected)"
    with len have "i = 0 \<or> i = Suc 0" by auto
    then show "chunk_starts sample_dec ?cs connected ! i = [0, 1/2] ! i"
      using st0 st1 by auto
  qed
  with second show ?thesis by simp
qed

text \<open>
  A chunk that arrives after the previous one has ended starts at its arrival, later
  than the previous start plus the previous duration: a first chunk of 0.5 seconds at
  time 0 and a second chunk at time 1.
\<close>

theorem enqueue_gap_counterexample:
  "chunk_starts sample_dec [(0, ''QUJD'', 1/2), (1, ''REVG'', 3/10)] connected = [0, 1]
   \<and> chunk_starts sample_dec [(0, ''QUJD'', 1/2), (1, ''REVG'', 3/10)] connected ! 1
       \<noteq> chunk_starts sample_dec [(0, ''QUJD'', 1/2), (1, ''REVG'', 3/10)] connected ! 0 + 1/2"
  by (simp add: chunk_starts_def chunk_messages_def connected_value onmessage_def audio_message_def
      sample_dec_def on_interrupted_def set_add_def Let_def)

section \<open>Speaking and the pending sources\<close>




section \<open>Interruption\<close>




section \<open>Payloads that fail to decode\<close>

text \<open>
  C8, as the code has it. A message whose payload fails to decode adds no source and
  makes no call on the audio output; of the state it changes the status, which it has
  set to \<open>SPEAKING\<close> before decoding (never to \<open>ERROR\<close>), and the cursor, which it has
  raised to the clock time. The next chunk that decodes, at a clock time not before
  that of the failed message, leaves the same state as if the failed message had never
  arrived.
\<close>

theorem malformed_payload:
  "inlineData m = Some b \<and> b \<noteq> [] \<and> dec b = None \<longrightarrow>
     onmessage dec now m s
       = s\<lparr>status := SPEAKING, nextStartTimeRef := max (nextStartTimeRef s) now\<rparr>
     \<and> status (onmessage dec now m s) \<noteq> ERROR
     \<and> sourcesRef (onmessage dec now m s) = sourcesRef s
     \<and> audioCalls (onmessage dec now m s) = audioCalls s
     \<and> (c \<noteq> [] \<and> dec c = Some d \<and> now \<le> later \<longrightarrow>
          onmessage dec later (audio_message c) (onmessage dec now m s)
            = onmessage dec later (audio_message c) s)"
proof (intro impI)
  assume a: "inlineData m = Some b \<and> b \<noteq> [] \<and> dec b = None"
  then have e: "onmessage dec now m s
       = s\<lparr>status := SPEAKING, nextStartTimeRef := max (nextStartTimeRef s) now\<rparr>"
    by (simp add: onmessage_def Let_def)
  have "c \<noteq> [] \<and> dec c = Some d \<and> now \<le> later \<longrightarrow>
          onmessage dec later (audio_message c) (onmessage dec now m s)
            = onmessage dec later (audio_message c) s"
  proof
    assume c: "c \<noteq> [] \<and> dec c = Some d \<and> now \<le> later"
    then have m: "max (max (nextStartTimeRef s) now) later = max (nextStartTimeRef s) later"
      by (auto simp: max_def)
    from c show "onmessage dec later (audio_message c) (onmessage dec now m s)
            = onmessage dec later (audio_message c) s"
      unfolding e by (simp add: enqueue_value [of c dec d] m)
  qed
  with e show "onmessage dec now m s
       = s\<lparr>status := SPEAKING, nextStartTimeRef := max (nextStartTimeRef s) now\<rparr>
     \<and> status (onmessage dec now m s) \<noteq> ERROR
     \<and> sourcesRef (onmessage dec now m s) = sourcesRef s
     \<and> audioCalls (onmessage dec now m s) = audioCalls s
     \<and> (c \<noteq> [] \<and> dec c = Some d \<and> now \<le> later \<longrightarrow>
          onmessage dec later (audio_message c) (onmessage dec now m s)
            = onmessage dec later (audio_message c) s)"
    by simp
qed

theorem malformed_payload_witness:
  "sample_dec ''!!!!'' = None
   \<and> status (onmessage sample_dec (1/10) (audio_message ''!!!!'') one_pending) = SPEAKING
   \<and> sourcesRef (onmessage sample_dec (1/10) (audio_message ''!!!!'') one_pending) = [0]
   \<and> audioCalls (onmessage sample_dec (1/10) (audio_message ''!!!!'') one_pending) = [Start 0 0]
   \<and> onmessage sample_dec (2/10) (audio_message ''REVG'')
        (onmessage sample_dec (1/10) (audio_message ''!!!!'') one_pending)
       = onmessage sample_dec (2/10) (audio_message ''REVG'') one_pending
   \<and> audioCalls (onmessage sample_dec (2/10) (audio_message ''REVG'')
        (onmessage sample_dec (1/10) (audio_message ''!!!!'') one_pending))
       = [Start 0 0, Start 1 (1/2)]"
proof -
  have d: "sample_dec ''!!!!'' = None" "sample_dec ''REVG'' = Some (3/10)"
    by (simp_all add: sample_dec_def)
  have v: "audioCalls (onmessage sample_dec (2/10) (audio_message ''REVG'') one_pending)
      = [Start 0 0, Start 1 (1/2)]"
    using enqueue_fields(1) [of "''REVG''" sample_dec "3/10" "2/10" one_pending] d
    by (simp add: one_pending_value connected_value)
  from malformed_payload [of "audio_message ''!!!!''" "''!!!!''" sample_dec "1/10" one_pending
      "''REVG''" "3/10" "2/10"] d v
  show ?thesis
    by (simp add: audio_message_def one_pending_value connected_value)
qed

text \<open>
  In \<open>READY\<close> with nothing pending, a payload that fails to decode changes the status
  to \<open>SPEAKING\<close>, still with nothing pending.
\<close>

theorem malformed_payload_status_counterexample:
  "sample_dec ''!!!!'' = None \<and> status connected = READY \<and> sourcesRef connected = []
   \<and> status (onmessage sample_dec 0 (audio_message ''!!!!'') connected) \<noteq> status connected
   \<and> status (onmessage sample_dec 0 (audio_message ''!!!!'') connected) = SPEAKING
   \<and> sourcesRef (onmessage sample_dec 0 (audio_message ''!!!!'') connected) = []"
  by (simp add: onmessage_def audio_message_def sample_dec_def connected_value Let_def)

end
